theory Spec2Isabelle
  imports Complex_Main
begin

section \<open>Values of the JavaScript runtime\<close>

text \<open>
  The stock proxy is a Node.js program: \<^verbatim>\<open>server.js\<close> (the current handler, with
  \<^verbatim>\<open>utils/validation.js\<close>) and \<^verbatim>\<open>server_backup.js\<close> (the earlier variant with the usage
  tracker). Strings are HOL strings, read as ASCII text; characters beyond the 8-bit range
  are outside the model.

  A JavaScript number is one of NaN, the two infinities, or a finite double. A finite double
  is written \<open>Fin q\<close> with \<open>q\<close> the exact rational that was parsed; the rounding of \<open>q\<close> to
  the nearest double is not carried out, so equal model values denote equal doubles.
\<close>

datatype number = NaN | PInf | NInf | Fin rat

text \<open>
  What \<^verbatim>\<open>JSON.parse\<close> can deliver, and \<^verbatim>\<open>undefined\<close> for an absent property. An object
  holds its own properties in the order \<^verbatim>\<open>Object.entries\<close> enumerates them.
\<close>

datatype jsval =
    Undefined
  | Null
  | Bool bool
  | Num number
  | Str string
  | Arr "jsval list"
  | Obj "(string \<times> jsval) list"

text \<open>ToBoolean.\<close>

fun truthy :: "jsval \<Rightarrow> bool" where
  "truthy Undefined = False"
| "truthy Null = False"
| "truthy (Bool b) = b"
| "truthy (Num n) = (n \<noteq> NaN \<and> n \<noteq> Fin 0)"
| "truthy (Str s) = (s \<noteq> [])"
| "truthy (Arr xs) = True"
| "truthy (Obj kvs) = True"

text \<open>\<^verbatim>\<open>a || b\<close>\<close>

definition or_js :: "jsval \<Rightarrow> jsval \<Rightarrow> jsval" where
  "or_js a b = (if truthy a then a else b)"

datatype exn =
    TypeError
  | SyntaxError
  | NetworkError
  | InvalidPriceData nat string number

text \<open>
  \<^verbatim>\<open>v[k]\<close> for the keys the handlers read (\<^verbatim>\<open>'Note'\<close>, \<^verbatim>\<open>'Information'\<close>, \<^verbatim>\<open>'message'\<close>,
  \<^verbatim>\<open>'Time Series (Daily)'\<close>, \<^verbatim>\<open>'4. close'\<close>, ...): none of them is an index, \<^verbatim>\<open>length\<close> or a
  property of a built-in prototype, so only an object can have one. Reading a property of
  \<^verbatim>\<open>null\<close> or \<^verbatim>\<open>undefined\<close> throws a TypeError.
\<close>

fun member :: "jsval \<Rightarrow> string \<Rightarrow> jsval" where
  "member (Obj kvs) k = (case map_of kvs k of None \<Rightarrow> Undefined | Some v \<Rightarrow> v)"
| "member _ k = Undefined"

fun get_prop :: "jsval \<Rightarrow> string \<Rightarrow> exn + jsval" where
  "get_prop Undefined k = Inl TypeError"
| "get_prop Null k = Inl TypeError"
| "get_prop v k = Inr (member v k)"

section \<open>utils/validation.js\<close>

definition validSymbols :: "string list" where
  "validSymbols = [''AAPL'', ''MSFT'', ''GOOGL'', ''AMZN'', ''META'', ''TSLA'', ''NVDA'',
                   ''JPM'', ''V'', ''WMT'']"

definition isAZ :: "char \<Rightarrow> bool" where
  "isAZ c = (65 \<le> (of_char c :: nat) \<and> (of_char c :: nat) \<le> 90)"

text \<open>
  The regular expression \<^verbatim>\<open>/^[A-Z]{1,5}$/\<close>: between \<open>lo\<close> and \<open>hi\<close> characters of the class
  \<^verbatim>\<open>[A-Z]\<close>, then the end of the input (no \<^verbatim>\<open>m\<close> flag, so \<^verbatim>\<open>$\<close> is the very end).
\<close>

fun rep_AZ :: "nat \<Rightarrow> nat \<Rightarrow> string \<Rightarrow> bool" where
  "rep_AZ lo hi [] = (lo = 0)"
| "rep_AZ lo hi (c # cs) = (0 < hi \<and> isAZ c \<and> rep_AZ (lo - 1) (hi - 1) cs)"

definition format_test :: "string \<Rightarrow> bool" where
  "format_test s = rep_AZ 1 5 s"

definition validateStockSymbol :: "string \<Rightarrow> bool" where
  "validateStockSymbol symbol =
     (if \<not> format_test symbol then False else symbol \<in> set validSymbols)"

text \<open>
  \<^verbatim>\<open>String.prototype.toUpperCase\<close> on ASCII text: the letters \<^verbatim>\<open>a\<close> to \<^verbatim>\<open>z\<close> are mapped,
  every other character is kept.
\<close>

definition upper_char :: "char \<Rightarrow> char" where
  "upper_char c =
     (case map_of (zip ''abcdefghijklmnopqrstuvwxyz'' ''ABCDEFGHIJKLMNOPQRSTUVWXYZ'') c of
        None \<Rightarrow> c
      | Some u \<Rightarrow> u)"

definition toUpperCase :: "string \<Rightarrow> string" where
  "toUpperCase s = map upper_char s"

section \<open>Runtime functions the handlers call\<close>

subsection \<open>\<^verbatim>\<open>parseFloat\<close>\<close>

definition isWhite :: "char \<Rightarrow> bool" where
  "isWhite c = ((of_char c :: nat) \<in> {9, 10, 11, 12, 13, 32, 160})"

definition isDigit :: "char \<Rightarrow> bool" where
  "isDigit c = (48 \<le> (of_char c :: nat) \<and> (of_char c :: nat) \<le> 57)"

definition digitVal :: "char \<Rightarrow> nat" where
  "digitVal c = (of_char c :: nat) - 48"

definition digitsVal :: "string \<Rightarrow> nat" where
  "digitsVal ds = foldl (\<lambda>a c. 10 * a + digitVal c) 0 ds"

text \<open>An optional sign: whether it is a minus, and the rest of the text.\<close>

fun signPart :: "string \<Rightarrow> bool \<times> string" where
  "signPart [] = (False, [])"
| "signPart (c # cs) =
     (if c = CHR ''-'' then (True, cs) else if c = CHR ''+'' then (False, cs)
      else (False, c # cs))"

text \<open>
  An exponent part counts only when at least one digit follows \<^verbatim>\<open>e\<close> and its sign.
\<close>

fun exponentPart :: "string \<Rightarrow> int" where
  "exponentPart [] = 0"
| "exponentPart (c # cs) =
     (if c = CHR ''e'' \<or> c = CHR ''E''
      then (let (neg, r) = signPart cs; ds = takeWhile isDigit r
            in if ds = [] then 0
               else if neg then - int (digitsVal ds) else int (digitsVal ds))
      else 0)"

definition pow10 :: "int \<Rightarrow> rat" where
  "pow10 k = (if 0 \<le> k then 10 ^ nat k else 1 / 10 ^ nat (- k))"

text \<open>
  A magnitude of at least \<open>2^1024 - 2^970\<close> rounds to an infinity; below it the value is a
  finite double.
\<close>

definition toDouble :: "rat \<Rightarrow> number" where
  "toDouble q =
     (if 2 ^ 1024 - 2 ^ 970 \<le> q then PInf
      else if q \<le> - (2 ^ 1024 - 2 ^ 970) then NInf
      else Fin q)"

text \<open>
  \<^verbatim>\<open>parseFloat\<close> of a string: leading white space is skipped, then the longest prefix that
  is a decimal literal (sign, \<^verbatim>\<open>Infinity\<close> or digits with an optional fraction and exponent)
  is read; without one the result is NaN.
\<close>

definition parseFloatStr :: "string \<Rightarrow> number" where
  "parseFloatStr s =
     (let (neg, r) = signPart (dropWhile isWhite s)
      in if take 8 r = ''Infinity'' then (if neg then NInf else PInf)
         else
           let ip = takeWhile isDigit r;
               r1 = dropWhile isDigit r;
               (fp, r2) = (case r1 of
                             [] \<Rightarrow> ([], [])
                           | c # r' \<Rightarrow>
                               if c = CHR ''.''
                               then (takeWhile isDigit r', dropWhile isDigit r')
                               else ([], r1))
           in if ip = [] \<and> fp = [] then NaN
              else
                let q = rat_of_nat (digitsVal (ip @ fp))
                          * pow10 (exponentPart r2 - int (length fp))
                in toDouble (if neg then - q else q))"

text \<open>
  \<^verbatim>\<open>parseFloat\<close> first converts its argument to a string. A number prints to a text that
  reads back as itself; \<^verbatim>\<open>undefined\<close>, \<^verbatim>\<open>null\<close>, booleans and objects print to texts with
  no numeric prefix; an array prints its elements separated by commas, so only its first
  element can contribute.
\<close>

fun parseFloat :: "jsval \<Rightarrow> number" where
  "parseFloat (Str s) = parseFloatStr s"
| "parseFloat (Num n) = n"
| "parseFloat (Arr (x # xs)) = parseFloat x"
| "parseFloat _ = NaN"

definition isFinite :: "number \<Rightarrow> bool" where
  "isFinite n = (case n of Fin q \<Rightarrow> True | _ \<Rightarrow> False)"

subsection \<open>\<^verbatim>\<open>new Date(string)\<close>\<close>

text \<open>
  The date-only form \<^verbatim>\<open>YYYY-MM-DD\<close> of the ECMAScript date-time format, read as midnight
  UTC, in milliseconds since 1970-01-01. Every other text is taken as an invalid date
  (\<open>None\<close>, the time value NaN): how an engine reads texts outside the standard format is
  its own choice, and nothing below is stated about them.
\<close>

definition leap :: "nat \<Rightarrow> bool" where
  "leap y = (y mod 4 = 0 \<and> (y mod 100 \<noteq> 0 \<or> y mod 400 = 0))"

definition yearLen :: "nat \<Rightarrow> nat" where
  "yearLen y = (if leap y then 366 else 365)"

definition daysInMonth :: "nat \<Rightarrow> nat \<Rightarrow> nat" where
  "daysInMonth y m =
     (if m = 2 then (if leap y then 29 else 28)
      else if m = 4 \<or> m = 6 \<or> m = 9 \<or> m = 11 then 30 else 31)"

text \<open>Days from 0000-01-01 up to the first day of year \<open>y\<close>.\<close>

definition daysBeforeYear :: "nat \<Rightarrow> int" where
  "daysBeforeYear y =
     365 * int y + int ((y + 3) div 4) - int ((y + 99) div 100) + int ((y + 399) div 400)"

definition daysBeforeMonth :: "nat \<Rightarrow> nat \<Rightarrow> nat" where
  "daysBeforeMonth y m = sum_list (map (daysInMonth y) [1..<m])"

definition dayNumber :: "nat \<Rightarrow> nat \<Rightarrow> nat \<Rightarrow> int" where
  "dayNumber y m d = daysBeforeYear y + int (daysBeforeMonth y m) + int d"

fun parseDate :: "string \<Rightarrow> (nat \<times> nat \<times> nat) option" where
  "parseDate [y1, y2, y3, y4, h1, m1, m2, h2, d1, d2] =
     (if list_all isDigit [y1, y2, y3, y4, m1, m2, d1, d2] \<and> h1 = CHR ''-'' \<and> h2 = CHR ''-''
      then (let y = digitsVal [y1, y2, y3, y4]; m = digitsVal [m1, m2]; d = digitsVal [d1, d2]
            in if 1 \<le> m \<and> m \<le> 12 \<and> 1 \<le> d \<and> d \<le> daysInMonth y m then Some (y, m, d) else None)
      else None)"
| "parseDate _ = None"

definition dateValue :: "string \<Rightarrow> int option" where
  "dateValue s =
     (case parseDate s of
        None \<Rightarrow> None
      | Some (y, m, d) \<Rightarrow>
          Some ((dayNumber y m d - dayNumber 1970 1 1) * 86400000))"

subsection \<open>\<^verbatim>\<open>Array.prototype.sort\<close> with a comparator\<close>

text \<open>
  The sort is stable: an element moves behind another only when the comparator says it is
  greater. It is written as an insertion sort; with a comparator that is a consistent
  order every stable sort gives the same array.
\<close>

fun insert_by :: "('a \<Rightarrow> 'a \<Rightarrow> int) \<Rightarrow> 'a \<Rightarrow> 'a list \<Rightarrow> 'a list" where
  "insert_by cmp x [] = [x]"
| "insert_by cmp x (y # ys) = (if cmp x y \<le> 0 then x # y # ys else y # insert_by cmp x ys)"

definition sort_by :: "('a \<Rightarrow> 'a \<Rightarrow> int) \<Rightarrow> 'a list \<Rightarrow> 'a list" where
  "sort_by cmp xs = foldr (insert_by cmp) xs []"

text \<open>\<^verbatim>\<open>String.prototype.includes\<close>\<close>

fun includes_str :: "string \<Rightarrow> string \<Rightarrow> bool" where
  "includes_str [] n = (n = [])"
| "includes_str (c # cs) n = (take (length n) (c # cs) = n \<or> includes_str cs n)"

text \<open>
  \<^verbatim>\<open>v.includes(n)\<close> for a value out of a JSON document: a string looks for a substring, an
  array for an element; nothing else has the method and the call throws a TypeError.
\<close>

fun includes_js :: "jsval \<Rightarrow> string \<Rightarrow> exn + bool" where
  "includes_js (Str s) n = Inr (includes_str s n)"
| "includes_js (Arr xs) n = Inr (Str n \<in> set xs)"
| "includes_js _ n = Inl TypeError"

text \<open>The decimal text of an array index, for \<^verbatim>\<open>Object.entries\<close>.\<close>

function show_nat :: "nat \<Rightarrow> string" where
  "show_nat n =
     (if n < 10 then [''0123456789'' ! n] else show_nat (n div 10) @ [''0123456789'' ! (n mod 10)])"
  by pat_completeness auto
termination
  by (relation "measure id") auto

text \<open>
  \<^verbatim>\<open>Object.entries\<close>: the own properties of an object, the indexed elements of an array,
  the characters of a string, nothing for a number or a boolean.
\<close>

fun entries :: "jsval \<Rightarrow> exn + (string \<times> jsval) list" where
  "entries Undefined = Inl TypeError"
| "entries Null = Inl TypeError"
| "entries (Obj kvs) = Inr kvs"
| "entries (Arr xs) = Inr (zip (map show_nat [0..<length xs]) xs)"
| "entries (Str s) = Inr (zip (map show_nat [0..<length s]) (map (\<lambda>c. Str [c]) s))"
| "entries _ = Inr []"

section \<open>The cache (\<^verbatim>\<open>new NodeCache({ stdTTL: 3600 })\<close>)\<close>

record point =
  date :: string
  close :: number

text \<open>
  The node-cache library keeps, for each key, a copy of the value and the instant
  (milliseconds) at which it expires: \<^verbatim>\<open>set\<close> stamps the entry with the current time plus
  \<^verbatim>\<open>stdTTL\<close> seconds, \<^verbatim>\<open>get\<close> returns a copy of the value unless that instant is already
  past. An expired entry is as good as absent; when the library physically removes it is
  not observable through \<^verbatim>\<open>get\<close>.
\<close>

type_synonym node_cache = "string \<rightharpoonup> (point list \<times> nat)"

definition stdTTL :: nat where
  "stdTTL = 3600"

definition cache_get :: "node_cache \<Rightarrow> nat \<Rightarrow> string \<Rightarrow> point list option" where
  "cache_get c t k =
     (case c k of None \<Rightarrow> None | Some (v, expires) \<Rightarrow> if expires < t then None else Some v)"

definition cache_set :: "node_cache \<Rightarrow> nat \<Rightarrow> string \<Rightarrow> point list \<Rightarrow> node_cache" where
  "cache_set c t k v = c(k \<mapsto> (v, t + stdTTL * 1000))"

section \<open>Process state, environment and responses\<close>

record usage =
  daily :: nat
  hourly :: "nat \<rightharpoonup> nat"
  minutely :: "nat \<rightharpoonup> nat"

text \<open>
  The module-level state: the cache, the usage map of \<^verbatim>\<open>server_backup.js\<close>, and (a ghost
  field) the outbound provider requests issued so far, each with its symbol and the time
  at which \<^verbatim>\<open>axios.get\<close> was called.
\<close>

record state =
  cache :: node_cache
  apiUsage :: "string \<rightharpoonup> usage"
  calls :: "(string \<times> nat) list"

datatype outcome = Rejected | Replied jsval

text \<open>
  What one run of the handler reads from outside: the clock when the request enters
  (\<open>now\<close>, in milliseconds; \<open>dayKey\<close> is the text \<^verbatim>\<open>year-month-day\<close> and \<open>hour\<close>, \<open>minute\<close> the
  local fields of the same instant), the time the provider request takes, the text
  \<^verbatim>\<open>new Date().toISOString()\<close> gives when the response is written, and the provider:
  \<open>Rejected\<close> when the promise of \<^verbatim>\<open>axios.get\<close> rejects, \<open>Replied d\<close> with \<open>d\<close> the
  \<^verbatim>\<open>response.data\<close> otherwise. Log output is left out.
\<close>

record env =
  now :: nat
  took :: nat
  stamp :: string
  dayKey :: string
  hour :: nat
  minute :: nat
  axios_get :: "string \<Rightarrow> outcome"

text \<open>
  A response: the HTTP status and the top-level fields of the JSON body, as the object that
  is handed to \<^verbatim>\<open>res.json\<close> or \<^verbatim>\<open>JSON.stringify\<close>, or that the text built by hand denotes
  (on the wire a NaN or an infinity inside it is written \<^verbatim>\<open>null\<close>). \<open>MessageOf e\<close> stands for the
  text \<^verbatim>\<open>e.message\<close> of a caught exception.
\<close>

datatype field = Plain jsval | MessageOf exn

record response =
  code :: nat
  body :: "(string \<times> field) list"

text \<open>\<^verbatim>\<open>res.apiError(error, statusCode = 500)\<close> and \<^verbatim>\<open>res.apiSuccess(data)\<close>\<close>

definition apiError :: "env \<Rightarrow> jsval \<Rightarrow> nat \<Rightarrow> response" where
  "apiError e error statusCode =
     \<lparr>code = statusCode,
      body = [(''status'', Plain (Str ''error'')),
              (''error'', Plain (or_js (member error ''message'') error)),
              (''timestamp'', Plain (Str (stamp e)))]\<rparr>"

definition apiSuccess :: "env \<Rightarrow> jsval \<Rightarrow> response" where
  "apiSuccess e data =
     \<lparr>code = 200,
      body = [(''status'', Plain (Str ''success'')),
              (''data'', Plain data),
              (''timestamp'', Plain (Str (stamp e)))]\<rparr>"

definition point_obj :: "point \<Rightarrow> jsval" where
  "point_obj p = Obj [(''date'', Str (date p)), (''close'', Num (close p))]"

definition seriesData :: "string \<Rightarrow> point list \<Rightarrow> bool \<Rightarrow> jsval" where
  "seriesData symbol cp cached =
     Obj [(''symbol'', Str symbol),
          (''closingPrices'', Arr (map point_obj cp)),
          (''cached'', Bool cached),
          (''dataPoints'', Num (Fin (of_nat (length cp))))]"

section \<open>The transform of the provider payload\<close>

fun mapE :: "('a \<Rightarrow> exn + 'b) \<Rightarrow> 'a list \<Rightarrow> exn + 'b list" where
  "mapE f [] = Inr []"
| "mapE f (x # xs) =
     (case f x of
        Inl e \<Rightarrow> Inl e
      | Inr y \<Rightarrow> (case mapE f xs of Inl e \<Rightarrow> Inl e | Inr ys \<Rightarrow> Inr (y # ys)))"

text \<open>
  \<^verbatim>\<open>([date, data]) => ({ date, close: parseFloat(data['4. close'] || data['5. adjusted close']) })\<close>
\<close>

definition toPoint :: "string \<times> jsval \<Rightarrow> exn + point" where
  "toPoint kv =
     (case get_prop (snd kv) ''4. close'' of
        Inl e \<Rightarrow> Inl e
      | Inr c \<Rightarrow>
          if truthy c then Inr \<lparr>date = fst kv, close = parseFloat c\<rparr>
          else (case get_prop (snd kv) ''5. adjusted close'' of
                  Inl e \<Rightarrow> Inl e
                | Inr a \<Rightarrow> Inr \<lparr>date = fst kv, close = parseFloat a\<rparr>))"

text \<open>
  \<^verbatim>\<open>(a, b) => new Date(a.date) - new Date(b.date)\<close>; the difference is NaN when either date is
  invalid, and the sort reads a NaN from the comparator as 0.
\<close>

definition byDate :: "point \<Rightarrow> point \<Rightarrow> int" where
  "byDate a b =
     (case dateValue (date a) of
        None \<Rightarrow> 0
      | Some x \<Rightarrow> (case dateValue (date b) of None \<Rightarrow> 0 | Some y \<Rightarrow> x - y))"

definition closingPrices :: "jsval \<Rightarrow> exn + point list" where
  "closingPrices timeSeries =
     (case entries timeSeries of
        Inl e \<Rightarrow> Inl e
      | Inr es \<Rightarrow> (case mapE toPoint es of Inl e \<Rightarrow> Inl e | Inr ps \<Rightarrow> Inr (sort_by byDate ps)))"

section \<open>server.js: \<^verbatim>\<open>app.get('/api/stock/:symbol')\<close>\<close>

text \<open>The outer \<^verbatim>\<open>catch\<close>: \<^verbatim>\<open>res.apiError('Failed to process stock data')\<close>\<close>

definition failedToProcess :: "env \<Rightarrow> response" where
  "failedToProcess e = apiError e (Str ''Failed to process stock data'') 500"

text \<open>The branch taken when the body or its \<^verbatim>\<open>'Time Series (Daily)'\<close> field is falsy.\<close>

definition noSeries :: "env \<Rightarrow> jsval \<Rightarrow> exn + response" where
  "noSeries e d =
     (case get_prop d ''Note'' of
        Inl x \<Rightarrow> Inl x
      | Inr note \<Rightarrow>
          (case (if truthy note then includes_js note ''API rate limit'' else Inr False) of
             Inl x \<Rightarrow> Inl x
           | Inr limited \<Rightarrow>
               if limited
               then Inr (apiError e
                      (Str ''Alpha Vantage API limit reached (5 requests/minute). Please wait 1 minute.'')
                      429)
               else (case get_prop d ''Information'' of
                       Inl x \<Rightarrow> Inl x
                     | Inr info \<Rightarrow>
                         if truthy info then Inr (apiError e info 400)
                         else Inr (apiError e (Str ''No data found for symbol'') 404))))"

text \<open>
  \<^verbatim>\<open>typeof item.close\<close>: the field was produced by \<^verbatim>\<open>parseFloat\<close>, and the type of every
  number is \<^verbatim>\<open>'number'\<close>, NaN included.
\<close>

definition typeof_number :: "number \<Rightarrow> bool" where
  "typeof_number n = (case n of NaN \<Rightarrow> True | PInf \<Rightarrow> True | NInf \<Rightarrow> True | Fin q \<Rightarrow> True)"

text \<open>
  The \<^verbatim>\<open>forEach\<close> that writes the points into the text: it throws at the first index with
  \<^verbatim>\<open>!item.date || typeof item.close !== 'number'\<close>.
\<close>

fun checkPoints :: "nat \<Rightarrow> point list \<Rightarrow> exn option" where
  "checkPoints i [] = None"
| "checkPoints i (p # ps) =
     (if date p = [] \<or> \<not> typeof_number (close p)
      then Some (InvalidPriceData i (date p) (close p))
      else checkPoints (Suc i) ps)"

text \<open>
  \<^verbatim>\<open>JSON.parse(jsonStr)\<close> on the text put together by hand. A number is written by template
  substitution: a finite one gives a JSON number, NaN and the infinities give the words
  \<^verbatim>\<open>NaN\<close> and \<^verbatim>\<open>Infinity\<close>, which JSON does not have. A date is pasted between double quotes
  as it is. With a date containing a double quote, a backslash or a control character the
  pasted text is no longer the string literal of that date, and whether the whole still
  parses depends on the rest of the text; the model takes it as not parsing, and nothing
  below is stated about such dates.
\<close>

definition jsonSafe :: "char \<Rightarrow> bool" where
  "jsonSafe c = (c \<noteq> CHR 0x22 \<and> c \<noteq> CHR 0x5C \<and> 32 \<le> (of_char c :: nat))"

definition jsonParses :: "point list \<Rightarrow> bool" where
  "jsonParses cp = list_all (\<lambda>p. list_all jsonSafe (date p) \<and> isFinite (close p)) cp"

text \<open>The inner \<^verbatim>\<open>try\<close>/\<^verbatim>\<open>catch\<close> that builds and sends the response of a fetch.\<close>

definition constructionFailed :: "exn \<Rightarrow> response" where
  "constructionFailed x =
     \<lparr>code = 500,
      body = [(''status'', Plain (Str ''error'')),
              (''error'', Plain (Str ''Failed to construct valid response'')),
              (''details'', MessageOf x)]\<rparr>"

definition buildResponse :: "env \<Rightarrow> string \<Rightarrow> point list \<Rightarrow> response" where
  "buildResponse e symbol cp =
     (case checkPoints 0 cp of
        Some x \<Rightarrow> constructionFailed x
      | None \<Rightarrow>
          if jsonParses cp then apiSuccess e (seriesData symbol cp False)
          else constructionFailed SyntaxError)"

text \<open>
  The handler is an \<^verbatim>\<open>async\<close> function. \<open>getStock_start\<close> is what runs when the request
  enters, up to the first \<^verbatim>\<open>await\<close>: it answers at once (\<open>Inl\<close>), or it calls
  \<^verbatim>\<open>axios.get\<close> and suspends (\<open>Inr\<close> with the symbol asked for). \<open>getStock_finish\<close> is what
  runs after the two awaits, the provider request and \<^verbatim>\<open>setTimeout(resolve, 13000)\<close>: a
  rejected request throws past the timer into the outer \<^verbatim>\<open>catch\<close>; otherwise the cache is
  written \<open>took + 13000\<close> ms after the request entered. Between the two parts other
  requests may enter; \<open>getStock\<close> is one request served with nothing in between.
\<close>

definition getStock_start :: "env \<Rightarrow> state \<Rightarrow> string \<Rightarrow> (response + string) \<times> state" where
  "getStock_start e st raw =
     (let symbol = toUpperCase raw in
      if \<not> validateStockSymbol symbol
      then (Inl (apiError e (Str ''Invalid stock symbol'') 400), st)
      else
        case cache_get (cache st) (now e) symbol of
          Some cachedData \<Rightarrow> (Inl (apiSuccess e (seriesData symbol cachedData True)), st)
        | None \<Rightarrow> (Inr symbol, st\<lparr>calls := calls st @ [(symbol, now e)]\<rparr>))"

definition getStock_finish :: "env \<Rightarrow> state \<Rightarrow> string \<Rightarrow> outcome \<Rightarrow> response \<times> state" where
  "getStock_finish e st symbol reply =
     (case reply of
        Rejected \<Rightarrow> (failedToProcess e, st)
      | Replied d \<Rightarrow>
          if \<not> truthy d \<or> \<not> truthy (member d ''Time Series (Daily)'')
          then (case noSeries e d of
                  Inl x \<Rightarrow> (failedToProcess e, st)
                | Inr r \<Rightarrow> (r, st))
          else
            case closingPrices (or_js (member d ''Time Series (Daily)'')
                                      (member d ''Time Series (Daily Adjusted)'')) of
              Inl x \<Rightarrow> (failedToProcess e, st)
            | Inr cp \<Rightarrow>
                (buildResponse e symbol cp,
                 st\<lparr>cache := cache_set (cache st) (now e + took e + 13000) symbol cp\<rparr>))"

definition getStock :: "env \<Rightarrow> state \<Rightarrow> string \<Rightarrow> response \<times> state" where
  "getStock e st raw =
     (case getStock_start e st raw of
        (Inl r, st') \<Rightarrow> (r, st')
      | (Inr symbol, st1) \<Rightarrow> getStock_finish e st1 symbol (axios_get e symbol))"

section \<open>server_backup.js\<close>

text \<open>
  The backup variant counts provider requests in \<^verbatim>\<open>apiUsage\<close>. Its inbound limiter
  (\<^verbatim>\<open>express-rate-limit\<close>, in front of every route) is not part of the handler and is left
  out.
\<close>

text \<open>\<^verbatim>\<open>trackApiUsage(symbol)\<close>\<close>

text \<open>\<^verbatim>\<open>counts[slot] = (counts[slot] || 0) + 1\<close>\<close>

definition countUp :: "nat \<Rightarrow> (nat \<rightharpoonup> nat) \<Rightarrow> (nat \<rightharpoonup> nat)" where
  "countUp slot counts =
     (let seen = (case counts slot of Some n \<Rightarrow> n | None \<Rightarrow> 0) in counts(slot \<mapsto> seen + 1))"

definition trackApiUsage :: "env \<Rightarrow> (string \<rightharpoonup> usage) \<Rightarrow> (string \<rightharpoonup> usage)" where
  "trackApiUsage e u =
     (let old = (case u (dayKey e) of
                   None \<Rightarrow> \<lparr>daily = 0, hourly = Map.empty, minutely = Map.empty\<rparr>
                 | Some x \<Rightarrow> x)
      in u(dayKey e \<mapsto> \<lparr>daily = daily old + 1,
                         hourly = countUp (hour e) (hourly old),
                         minutely = countUp (minute e) (minutely old)\<rparr>))"

definition noSeries_backup :: "env \<Rightarrow> jsval \<Rightarrow> exn + response" where
  "noSeries_backup e d =
     (case get_prop d ''Note'' of
        Inl x \<Rightarrow> Inl x
      | Inr note \<Rightarrow>
          (case get_prop d ''Information'' of
             Inl x \<Rightarrow> Inl x
           | Inr info \<Rightarrow>
               if truthy (or_js note info) then Inr (apiError e (or_js note info) 429)
               else Inr (apiError e (Str ''No data found for symbol'') 404)))"

text \<open>
  The backup handler passes a whole envelope to \<^verbatim>\<open>res.apiSuccess\<close>, which wraps it again.
\<close>

definition wrapped :: "env \<Rightarrow> jsval \<Rightarrow> jsval" where
  "wrapped e data =
     Obj [(''status'', Str ''success''), (''data'', data), (''timestamp'', Str (stamp e))]"

text \<open>The two parts of the backup handler, and one request served with nothing in between.\<close>

definition getStock_backup_start ::
    "env \<Rightarrow> state \<Rightarrow> string \<Rightarrow> (response + string) \<times> state" where
  "getStock_backup_start e st raw =
     (let symbol = toUpperCase raw in
      if \<not> validateStockSymbol symbol
      then (Inl (apiError e (Str ''Invalid stock symbol'') 400), st)
      else
        case cache_get (cache st) (now e) symbol of
          Some cachedData \<Rightarrow>
            (Inl (apiSuccess e (wrapped e (seriesData symbol cachedData True))), st)
        | None \<Rightarrow>
            (Inr symbol,
             st\<lparr>apiUsage := trackApiUsage e (apiUsage st),
                calls := calls st @ [(symbol, now e)]\<rparr>))"

definition getStock_backup_finish ::
    "env \<Rightarrow> state \<Rightarrow> string \<Rightarrow> outcome \<Rightarrow> response \<times> state" where
  "getStock_backup_finish e st symbol reply =
     (case reply of
        Rejected \<Rightarrow> (failedToProcess e, st)
      | Replied d \<Rightarrow>
          if \<not> truthy d \<or> \<not> truthy (member d ''Time Series (Daily)'')
          then (case noSeries_backup e d of
                  Inl x \<Rightarrow> (failedToProcess e, st)
                | Inr r \<Rightarrow> (r, st))
          else
            case closingPrices (or_js (member d ''Time Series (Daily)'')
                                      (member d ''Time Series (Daily Adjusted)'')) of
              Inl x \<Rightarrow> (failedToProcess e, st)
            | Inr cp \<Rightarrow>
                (apiSuccess e (wrapped e (seriesData symbol cp False)),
                 st\<lparr>cache := cache_set (cache st) (now e + took e + 13000) symbol cp\<rparr>))"

definition getStock_backup :: "env \<Rightarrow> state \<Rightarrow> string \<Rightarrow> response \<times> state" where
  "getStock_backup e st raw =
     (case getStock_backup_start e st raw of
        (Inl r, st') \<Rightarrow> (r, st')
      | (Inr symbol, st1) \<Rightarrow> getStock_backup_finish e st1 symbol (axios_get e symbol))"

section \<open>Concrete requests\<close>

text \<open>
  An environment whose provider answers every request with the body \<open>d\<close>, the state of a
  freshly started process, and some provider bodies.
\<close>

definition env_of :: "jsval \<Rightarrow> env" where
  "env_of d =
     \<lparr>now = 0, took = 250, stamp = ''2024-01-05T00:00:00.000Z'', dayKey = ''2024-0-5'',
      hour = 0, minute = 0, axios_get = (\<lambda>symbol. Replied d)\<rparr>"

definition later :: "env \<Rightarrow> nat \<Rightarrow> env" where
  "later e ms = e\<lparr>now := now e + ms\<rparr>"

definition st0 :: state where
  "st0 = \<lparr>cache = Map.empty, apiUsage = Map.empty, calls = []\<rparr>"

definition ts3 :: "(string \<times> jsval) list" where
  "ts3 =
     [(''2024-01-04'', Obj [(''4. close'', Str ''184.9'')]),
      (''2024-01-02'', Obj [(''4. close'', Str ''185.6'')]),
      (''2024-01-03'', Obj [(''5. adjusted close'', Str ''186.2'')])]"

definition payload3 :: jsval where
  "payload3 =
     Obj [(''Meta Data'', Obj [(''2. Symbol'', Str ''AAPL'')]),
          (''Time Series (Daily)'', Obj ts3)]"

definition series3 :: "point list" where
  "series3 =
     [\<lparr>date = ''2024-01-02'', close = Fin (928 / 5)\<rparr>,
      \<lparr>date = ''2024-01-03'', close = Fin (931 / 5)\<rparr>,
      \<lparr>date = ''2024-01-04'', close = Fin (1849 / 10)\<rparr>]"

definition st_cached :: state where
  "st_cached =
     \<lparr>cache = [''AAPL'' \<mapsto> (series3, 0 + stdTTL * 1000)], apiUsage = Map.empty, calls = []\<rparr>"

text \<open>A time series whose only entry has neither a close nor an adjusted close.\<close>

definition payloadMissing :: jsval where
  "payloadMissing =
     Obj [(''Time Series (Daily)'', Obj [(''2024-01-02'', Obj [(''1. open'', Str ''185.0'')])])]"

definition st_nan :: state where
  "st_nan =
     \<lparr>cache = [''AAPL'' \<mapsto> ([\<lparr>date = ''2024-01-02'', close = NaN\<rparr>], 3613250)],
      apiUsage = Map.empty, calls = [(''AAPL'', 0)]\<rparr>"

text \<open>Bodies without a time series: the provider's notices.\<close>

definition noteOnly :: jsval where
  "noteOnly =
     Obj [(''Note'', Str ''Thank you for using Alpha Vantage! Our standard API call frequency is 5 calls per minute and 500 calls per day.'')]"

definition infoOnly :: jsval where
  "infoOnly =
     Obj [(''Information'', Str ''Thank you for using Alpha Vantage! This is a premium endpoint.'')]"

definition noteLimit :: "(string \<times> jsval) list" where
  "noteLimit = [(''Note'', Str ''API rate limit reached, please retry later.'')]"

section \<open>The error-handling middleware\<close>

text \<open>
  \<^verbatim>\<open>app.use((err, req, res, next) => ...)\<close>, registered after the routes. The stock handler
  catches every exception itself, so it never reaches this function.
\<close>

definition errorMiddleware :: "exn \<Rightarrow> response" where
  "errorMiddleware err =
     \<lparr>code = 500,
      body = [(''error'', Plain (Str ''Internal server error'')), (''message'', MessageOf err)]\<rparr>"

section \<open>Notions used to state the properties\<close>




section \<open>Evaluation and helper lemmas\<close>

lemmas handler_defs = getStock_def getStock_start_def getStock_finish_def getStock_backup_def
  getStock_backup_start_def getStock_backup_finish_def cache_get_def cache_set_def stdTTL_def
  apiError_def apiSuccess_def seriesData_def point_obj_def wrapped_def failedToProcess_def
  noSeries_def noSeries_backup_def buildResponse_def constructionFailed_def jsonParses_def
  jsonSafe_def typeof_number_def isFinite_def closingPrices_def toPoint_def byDate_def
  sort_by_def or_js_def trackApiUsage_def countUp_def Let_def

lemmas getStock_parts = getStock_def getStock_start_def getStock_finish_def

lemmas getStock_backup_parts = getStock_backup_def getStock_backup_start_def
  getStock_backup_finish_def

lemmas runtime_defs = toUpperCase_def upper_char_def validateStockSymbol_def format_test_def
  isAZ_def validSymbols_def parseFloatStr_def isWhite_def isDigit_def digitsVal_def digitVal_def
  pow10_def toDouble_def dateValue_def daysInMonth_def leap_def dayNumber_def daysBeforeYear_def
  daysBeforeMonth_def

lemmas input_defs = env_of_def later_def st0_def ts3_def payload3_def series3_def st_cached_def
  payloadMissing_def st_nan_def noteOnly_def infoOnly_def noteLimit_def

lemma rep_AZ_iff:
  "rep_AZ lo hi s \<longleftrightarrow> lo \<le> length s \<and> length s \<le> hi \<and> list_all isAZ s"
  by (induction s arbitrary: lo hi) auto

lemma toUpperCase_aapl: "toUpperCase ''aapl'' = ''AAPL''"
  by (simp add: toUpperCase_def upper_char_def)

lemma valid_AAPL: "validateStockSymbol ''AAPL''"
  by (simp add: validateStockSymbol_def format_test_def isAZ_def validSymbols_def)

section \<open>The symbol validator\<close>

text \<open>
  C8 (as amended). \<^verbatim>\<open>validateStockSymbol\<close> does not change the case of its input. It
  returns true exactly when the input, as given, consists of one to five letters \<^verbatim>\<open>A\<close> to
  \<^verbatim>\<open>Z\<close> and is a member of the fixed allow-list. It is a total function of its input: it
  has no state and no failing branch.
\<close>

theorem validateStockSymbol_exact:
  "validateStockSymbol s =
     (1 \<le> length s \<and> length s \<le> 5 \<and> list_all isAZ s \<and> s \<in> set validSymbols)"
  by (auto simp add: validateStockSymbol_def format_test_def rep_AZ_iff)

theorem validateStockSymbol_exact_witness:
  "validateStockSymbol ''MSFT'' =
     (1 \<le> length ''MSFT'' \<and> length ''MSFT'' \<le> 5 \<and> list_all isAZ ''MSFT''
      \<and> ''MSFT'' \<in> set validSymbols)"
  by (rule validateStockSymbol_exact [of "''MSFT''"])

text \<open>
  C8 as stated fails: the validator is not case-insensitive. It rejects \<^verbatim>\<open>aapl\<close> and
  accepts its upper-case form; the upper-casing is done by the handler before the call.
\<close>

theorem validateStockSymbol_case_sensitive:
  "\<not> validateStockSymbol ''aapl'' \<and> validateStockSymbol (toUpperCase ''aapl'')"
  by (simp add: toUpperCase_aapl valid_AAPL)
     (simp add: validateStockSymbol_def format_test_def isAZ_def)

section \<open>Rejected symbols\<close>

text \<open>
  C5. The handler upper-cases the request parameter and hands it to the validator. When
  the validator rejects it (the upper-cased text does not match the format or is not in
  the allow-list), both handlers answer 400 with the error \<^verbatim>\<open>Invalid stock symbol\<close> and
  return the state as it was: no provider request is issued and neither the cache nor the
  usage map is written.
\<close>

theorem invalid_symbol_rejected:
  assumes "\<not> validateStockSymbol (toUpperCase raw)"
  shows "getStock e st raw = (apiError e (Str ''Invalid stock symbol'') 400, st)
         \<and> getStock_backup e st raw = (apiError e (Str ''Invalid stock symbol'') 400, st)
         \<and> code (apiError e (Str ''Invalid stock symbol'') 400) = 400
         \<and> body (apiError e (Str ''Invalid stock symbol'') 400)
             = [(''status'', Plain (Str ''error'')),
                (''error'', Plain (Str ''Invalid stock symbol'')),
                (''timestamp'', Plain (Str (stamp e)))]"
  using assms by (simp add: getStock_parts getStock_backup_parts apiError_def or_js_def)

theorem invalid_symbol_rejected_witness:
  "\<not> validateStockSymbol (toUpperCase ''XOM'')
   \<and> getStock (env_of payload3) st0 ''XOM''
       = (apiError (env_of payload3) (Str ''Invalid stock symbol'') 400, st0)
   \<and> getStock_backup (env_of payload3) st0 ''XOM''
       = (apiError (env_of payload3) (Str ''Invalid stock symbol'') 400, st0)
   \<and> code (apiError (env_of payload3) (Str ''Invalid stock symbol'') 400) = 400
   \<and> body (apiError (env_of payload3) (Str ''Invalid stock symbol'') 400)
       = [(''status'', Plain (Str ''error'')),
          (''error'', Plain (Str ''Invalid stock symbol'')),
          (''timestamp'', Plain (Str (stamp (env_of payload3))))]"
proof -
  have h: "\<not> validateStockSymbol (toUpperCase ''XOM'')"
    by (simp add: runtime_defs)
  from invalid_symbol_rejected [OF h, of "env_of payload3" st0] h show ?thesis
    by blast
qed

section \<open>Cache hits\<close>

lemma map_point_obj:
  "map point_obj series
     = map (\<lambda>p. Obj [(''date'', Str (date p)), (''close'', Num (close p))]) series"
  by (simp add: point_obj_def)

text \<open>
  C4. For a symbol that is valid after upper-casing and whose cache entry was stored at
  \<open>t0\<close> less than 3600 seconds before the request, both handlers answer 200 with a body
  that carries the symbol, the points of that entry, one for one and in their order,
  \<^verbatim>\<open>cached: true\<close> and the number of points (\<^verbatim>\<open>server_backup.js\<close> wraps it in a second
  envelope), and they return the state as it was: no provider request, no usage-tracker
  update, no cache write.
\<close>

theorem fresh_entry_served_from_cache:
  assumes "validateStockSymbol (toUpperCase raw)"
      and "cache st (toUpperCase raw) = Some (series, t0 + stdTTL * 1000)"
      and "now e < t0 + 3600 * 1000"
  shows "getStock e st raw =
           (\<lparr>code = 200,
             body =
               [(''status'', Plain (Str ''success'')),
                (''data'',
                 Plain (Obj [(''symbol'', Str (toUpperCase raw)),
                             (''closingPrices'',
                              Arr (map (\<lambda>p. Obj [(''date'', Str (date p)),
                                                  (''close'', Num (close p))]) series)),
                             (''cached'', Bool True),
                             (''dataPoints'', Num (Fin (of_nat (length series))))])),
                (''timestamp'', Plain (Str (stamp e)))]\<rparr>,
            st)
         \<and> getStock_backup e st raw =
             (\<lparr>code = 200,
               body =
                 [(''status'', Plain (Str ''success'')),
                  (''data'',
                   Plain (Obj [(''status'', Str ''success''),
                               (''data'',
                                Obj [(''symbol'', Str (toUpperCase raw)),
                                     (''closingPrices'',
                                      Arr (map (\<lambda>p. Obj [(''date'', Str (date p)),
                                                          (''close'', Num (close p))]) series)),
                                     (''cached'', Bool True),
                                     (''dataPoints'', Num (Fin (of_nat (length series))))]),
                               (''timestamp'', Str (stamp e))])),
                  (''timestamp'', Plain (Str (stamp e)))]\<rparr>,
              st)"
  using assms
  by (simp add: getStock_parts getStock_backup_parts cache_get_def stdTTL_def apiSuccess_def
      wrapped_def seriesData_def map_point_obj)

theorem fresh_entry_served_from_cache_witness:
  "validateStockSymbol (toUpperCase ''aapl'')
   \<and> cache st_cached (toUpperCase ''aapl'') = Some (series3, 0 + stdTTL * 1000)
   \<and> now (later (env_of Null) 3599999) < 0 + 3600 * 1000
   \<and> getStock (later (env_of Null) 3599999) st_cached ''aapl'' =
       (\<lparr>code = 200,
         body =
           [(''status'', Plain (Str ''success'')),
            (''data'',
             Plain (Obj [(''symbol'', Str ''AAPL''),
                         (''closingPrices'',
                          Arr [Obj [(''date'', Str ''2024-01-02''), (''close'', Num (Fin (928 / 5)))],
                               Obj [(''date'', Str ''2024-01-03''), (''close'', Num (Fin (931 / 5)))],
                               Obj [(''date'', Str ''2024-01-04''), (''close'', Num (Fin (1849 / 10)))]]),
                         (''cached'', Bool True),
                         (''dataPoints'', Num (Fin 3))])),
            (''timestamp'', Plain (Str ''2024-01-05T00:00:00.000Z''))]\<rparr>,
        st_cached)
   \<and> snd (getStock_backup (later (env_of Null) 3599999) st_cached ''aapl'') = st_cached
   \<and> code (fst (getStock_backup (later (env_of Null) 3599999) st_cached ''aapl'')) = 200"
proof -
  have h1: "validateStockSymbol (toUpperCase ''aapl'')"
    by (simp add: toUpperCase_aapl valid_AAPL)
  have h2: "cache st_cached (toUpperCase ''aapl'') = Some (series3, 0 + stdTTL * 1000)"
    by (simp add: toUpperCase_aapl st_cached_def)
  have h3: "now (later (env_of Null) 3599999) < 0 + 3600 * 1000"
    by (simp add: later_def env_of_def)
  from fresh_entry_served_from_cache [OF h1 h2 h3] h1 h2 h3 show ?thesis
    by (simp add: toUpperCase_aapl series3_def later_def env_of_def)
qed

section \<open>The paths through the handlers\<close>

lemma truthy_member: "truthy (member d k) \<Longrightarrow> truthy d"
  by (cases d) auto

lemma buildResponse_code:
  "code (buildResponse e symbol cp) = 200 \<or> code (buildResponse e symbol cp) = 500"
  by (simp add: buildResponse_def constructionFailed_def apiSuccess_def split: option.splits)

lemma buildResponse_no_client_code: "code (buildResponse e symbol cp) \<notin> {400, 404, 429}"
  using buildResponse_code [of e symbol cp] by auto

lemma buildResponse_not_failed: "buildResponse e symbol cp \<noteq> failedToProcess e"
  by (simp add: buildResponse_def constructionFailed_def apiSuccess_def failedToProcess_def
      apiError_def split: option.splits)

lemma wrapped_success_code: "code (apiSuccess e data) = 200"
  by (simp add: apiSuccess_def)

lemma success_not_failed: "apiSuccess e data \<noteq> failedToProcess e"
  by (simp add: apiSuccess_def failedToProcess_def apiError_def)

text \<open>
  Every run either leaves the cache alone or has transformed a provider body with a time
  series and stored the result.
\<close>

lemma getStock_cache_cases:
  "(snd (getStock e st raw) = st
     \<or> snd (getStock e st raw) = st\<lparr>calls := calls st @ [(toUpperCase raw, now e)]\<rparr>)
   \<or> (\<exists>d cp. axios_get e (toUpperCase raw) = Replied d
         \<and> truthy (member d ''Time Series (Daily)'')
         \<and> closingPrices (member d ''Time Series (Daily)'') = Inr cp
         \<and> fst (getStock e st raw) = buildResponse e (toUpperCase raw) cp
         \<and> cache (snd (getStock e st raw))
             = cache_set (cache st) (now e + took e + 13000) (toUpperCase raw) cp)"
  by (auto simp add: getStock_parts Let_def or_js_def
      split: option.splits outcome.splits sum.splits)

lemma getStock_backup_cache_cases:
  "(snd (getStock_backup e st raw) = st
     \<or> snd (getStock_backup e st raw)
         = st\<lparr>apiUsage := trackApiUsage e (apiUsage st), calls := calls st @ [(toUpperCase raw, now e)]\<rparr>)
   \<or> (\<exists>d cp. axios_get e (toUpperCase raw) = Replied d
         \<and> truthy (member d ''Time Series (Daily)'')
         \<and> closingPrices (member d ''Time Series (Daily)'') = Inr cp
         \<and> fst (getStock_backup e st raw)
             = apiSuccess e (wrapped e (seriesData (toUpperCase raw) cp False))
         \<and> cache (snd (getStock_backup e st raw))
             = cache_set (cache st) (now e + took e + 13000) (toUpperCase raw) cp)"
  by (auto simp add: getStock_backup_parts Let_def or_js_def
      split: option.splits outcome.splits sum.splits)

lemma getStock_failure_keeps_cache:
  assumes "code (fst (getStock e st raw)) \<in> {400, 404, 429}
           \<or> fst (getStock e st raw) = failedToProcess e"
  shows "cache (snd (getStock e st raw)) = cache st"
proof -
  consider (same) "snd (getStock e st raw) = st
                   \<or> snd (getStock e st raw) = st\<lparr>calls := calls st @ [(toUpperCase raw, now e)]\<rparr>"
    | (built) cp where "fst (getStock e st raw) = buildResponse e (toUpperCase raw) cp"
    using getStock_cache_cases [of e st raw] by blast
  then show ?thesis
  proof cases
    case same
    then show ?thesis by auto
  next
    case built
    with assms buildResponse_no_client_code [of e "toUpperCase raw" cp]
      buildResponse_not_failed [of e "toUpperCase raw" cp]
    show ?thesis by simp
  qed
qed

lemma getStock_backup_failure_keeps_cache:
  assumes "code (fst (getStock_backup e st raw)) \<in> {400, 404, 429}
           \<or> fst (getStock_backup e st raw) = failedToProcess e"
  shows "cache (snd (getStock_backup e st raw)) = cache st"
proof -
  consider (same) "snd (getStock_backup e st raw) = st
                   \<or> snd (getStock_backup e st raw)
                       = st\<lparr>apiUsage := trackApiUsage e (apiUsage st),
                               calls := calls st @ [(toUpperCase raw, now e)]\<rparr>"
    | (sent) cp where "fst (getStock_backup e st raw)
                         = apiSuccess e (wrapped e (seriesData (toUpperCase raw) cp False))"
    using getStock_backup_cache_cases [of e st raw] by blast
  then show ?thesis
  proof cases
    case same
    then show ?thesis by auto
  next
    case sent
    with assms success_not_failed [of e] show ?thesis
      by (simp add: wrapped_success_code)
  qed
qed

lemma getStock_fetch:
  assumes "validateStockSymbol (toUpperCase raw)"
      and "cache_get (cache st) (now e) (toUpperCase raw) = None"
      and "axios_get e (toUpperCase raw) = Replied d"
      and "truthy (member d ''Time Series (Daily)'')"
      and "closingPrices (member d ''Time Series (Daily)'') = Inr series"
  shows "getStock e st raw =
           (buildResponse e (toUpperCase raw) series,
            st\<lparr>calls := calls st @ [(toUpperCase raw, now e)],
               cache := cache_set (cache st) (now e + took e + 13000) (toUpperCase raw) series\<rparr>)"
  using assms truthy_member [of d "''Time Series (Daily)''"]
  by (simp add: getStock_parts Let_def or_js_def)

lemma getStock_backup_fetch:
  assumes "validateStockSymbol (toUpperCase raw)"
      and "cache_get (cache st) (now e) (toUpperCase raw) = None"
      and "axios_get e (toUpperCase raw) = Replied d"
      and "truthy (member d ''Time Series (Daily)'')"
      and "closingPrices (member d ''Time Series (Daily)'') = Inr series"
  shows "getStock_backup e st raw =
           (apiSuccess e (wrapped e (seriesData (toUpperCase raw) series False)),
            st\<lparr>apiUsage := trackApiUsage e (apiUsage st),
               calls := calls st @ [(toUpperCase raw, now e)],
               cache := cache_set (cache st) (now e + took e + 13000) (toUpperCase raw) series\<rparr>)"
  using assms truthy_member [of d "''Time Series (Daily)''"]
  by (simp add: getStock_backup_parts Let_def or_js_def)

lemma getStock_hit:
  assumes "validateStockSymbol (toUpperCase raw)"
      and "cache_get (cache st) (now e) (toUpperCase raw) = Some series"
  shows "getStock e st raw = (apiSuccess e (seriesData (toUpperCase raw) series True), st)"
    and "getStock_backup e st raw
           = (apiSuccess e (wrapped e (seriesData (toUpperCase raw) series True)), st)"
  using assms by (simp_all add: getStock_parts getStock_backup_parts)

lemma cache_roundtrip:
  "t' < t + 3600 * 1000 \<Longrightarrow> cache_get (cache_set c t k v) t' k = Some v"
  by (simp add: cache_get_def cache_set_def stdTTL_def)

section \<open>Calendar dates and their time values\<close>



lemma yearLen_pos: "0 < yearLen y"
  by (simp add: yearLen_def)



















section \<open>The transform and the sort\<close>















section \<open>A provider body without a time series\<close>

text \<open>
  C1 (as amended). For a valid symbol that misses the cache, let the provider body be an
  object whose \<^verbatim>\<open>'Time Series (Daily)'\<close> field is absent (or falsy) and whose \<^verbatim>\<open>'Note'\<close> field
  is absent or a string. Then \<^verbatim>\<open>server.js\<close> answers 429, with its fixed message, exactly
  when the note contains the text \<^verbatim>\<open>API rate limit\<close>; otherwise, when the
  \<^verbatim>\<open>'Information'\<close> field is truthy (present and not empty), it answers 400 with that
  information as the error (its \<^verbatim>\<open>message\<close> property where it has a truthy one); otherwise
  it answers 404 \<^verbatim>\<open>No data found for symbol\<close>. \<^verbatim>\<open>server_backup.js\<close> answers 429 when the
  note or the information is truthy, with the note as the error, or the information where
  the note is not truthy (again its \<^verbatim>\<open>message\<close> property where it has a truthy one);
  otherwise it answers 404. Every one of these answers has the
  fields \<^verbatim>\<open>status\<close>, \<^verbatim>\<open>error\<close> and \<^verbatim>\<open>timestamp\<close>.
\<close>

theorem missing_series_status:
  assumes "validateStockSymbol (toUpperCase raw)"
      and "cache_get (cache st) (now e) (toUpperCase raw) = None"
      and "axios_get e (toUpperCase raw) = Replied (Obj kvs)"
      and "\<not> truthy (member (Obj kvs) ''Time Series (Daily)'')"
      and "member (Obj kvs) ''Note'' = Undefined \<or> member (Obj kvs) ''Note'' = Str s"
  shows "fst (getStock e st raw) =
           (if member (Obj kvs) ''Note'' = Str s \<and> includes_str s ''API rate limit''
            then \<lparr>code = 429,
                  body = [(''status'', Plain (Str ''error'')),
                          (''error'', Plain (Str ''Alpha Vantage API limit reached (5 requests/minute). Please wait 1 minute.'')),
                          (''timestamp'', Plain (Str (stamp e)))]\<rparr>
            else if truthy (member (Obj kvs) ''Information'')
            then \<lparr>code = 400,
                  body = [(''status'', Plain (Str ''error'')),
                          (''error'',
                           Plain (or_js (member (member (Obj kvs) ''Information'') ''message'')
                                        (member (Obj kvs) ''Information''))),
                          (''timestamp'', Plain (Str (stamp e)))]\<rparr>
            else \<lparr>code = 404,
                  body = [(''status'', Plain (Str ''error'')),
                          (''error'', Plain (Str ''No data found for symbol'')),
                          (''timestamp'', Plain (Str (stamp e)))]\<rparr>)
         \<and> fst (getStock_backup e st raw) =
             (if truthy (member (Obj kvs) ''Note'') \<or> truthy (member (Obj kvs) ''Information'')
              then \<lparr>code = 429,
                    body = [(''status'', Plain (Str ''error'')),
                            (''error'',
                             Plain (or_js (member (or_js (member (Obj kvs) ''Note'')
                                                         (member (Obj kvs) ''Information''))
                                                  ''message'')
                                          (or_js (member (Obj kvs) ''Note'')
                                                 (member (Obj kvs) ''Information'')))),
                            (''timestamp'', Plain (Str (stamp e)))]\<rparr>
              else \<lparr>code = 404,
                    body = [(''status'', Plain (Str ''error'')),
                            (''error'', Plain (Str ''No data found for symbol'')),
                            (''timestamp'', Plain (Str (stamp e)))]\<rparr>)"
proof -
  have a: "getStock e st raw =
             (case noSeries e (Obj kvs) of
                Inl x \<Rightarrow> (failedToProcess e, st\<lparr>calls := calls st @ [(toUpperCase raw, now e)]\<rparr>)
              | Inr r \<Rightarrow> (r, st\<lparr>calls := calls st @ [(toUpperCase raw, now e)]\<rparr>))"
    using assms(1-4) by (simp add: getStock_parts Let_def)
  have b: "getStock_backup e st raw =
             (case noSeries_backup e (Obj kvs) of
                Inl x \<Rightarrow> (failedToProcess e,
                           st\<lparr>apiUsage := trackApiUsage e (apiUsage st),
                              calls := calls st @ [(toUpperCase raw, now e)]\<rparr>)
              | Inr r \<Rightarrow> (r, st\<lparr>apiUsage := trackApiUsage e (apiUsage st),
                                calls := calls st @ [(toUpperCase raw, now e)]\<rparr>))"
    using assms(1-4) by (simp add: getStock_backup_parts Let_def)
  have plain: "or_js (member (Str t) ''message'') (Str t) = Str t" for t
    by (simp add: or_js_def)
  have no_member: "member (Str t) k = Undefined" for t k
    by simp
  have c: "fst (getStock e st raw) =
           (if member (Obj kvs) ''Note'' = Str s \<and> includes_str s ''API rate limit''
            then \<lparr>code = 429,
                  body = [(''status'', Plain (Str ''error'')),
                          (''error'', Plain (Str ''Alpha Vantage API limit reached (5 requests/minute). Please wait 1 minute.'')),
                          (''timestamp'', Plain (Str (stamp e)))]\<rparr>
            else if truthy (member (Obj kvs) ''Information'')
            then \<lparr>code = 400,
                  body = [(''status'', Plain (Str ''error'')),
                          (''error'',
                           Plain (or_js (member (member (Obj kvs) ''Information'') ''message'')
                                        (member (Obj kvs) ''Information''))),
                          (''timestamp'', Plain (Str (stamp e)))]\<rparr>
            else \<lparr>code = 404,
                  body = [(''status'', Plain (Str ''error'')),
                          (''error'', Plain (Str ''No data found for symbol'')),
                          (''timestamp'', Plain (Str (stamp e)))]\<rparr>)"
    using assms(5) unfolding a
    by (auto simp add: noSeries_def apiError_def plain simp del: member.simps)
  have d: "fst (getStock_backup e st raw) =
             (if truthy (member (Obj kvs) ''Note'') \<or> truthy (member (Obj kvs) ''Information'')
              then \<lparr>code = 429,
                    body = [(''status'', Plain (Str ''error'')),
                            (''error'',
                             Plain (or_js (member (or_js (member (Obj kvs) ''Note'')
                                                         (member (Obj kvs) ''Information''))
                                                  ''message'')
                                          (or_js (member (Obj kvs) ''Note'')
                                                 (member (Obj kvs) ''Information'')))),
                            (''timestamp'', Plain (Str (stamp e)))]\<rparr>
              else \<lparr>code = 404,
                    body = [(''status'', Plain (Str ''error'')),
                            (''error'', Plain (Str ''No data found for symbol'')),
                            (''timestamp'', Plain (Str (stamp e)))]\<rparr>)"
    unfolding b
    by (auto simp add: noSeries_backup_def apiError_def plain no_member or_js_def
        simp del: member.simps)
  from c d show ?thesis by (rule conjI)
qed

theorem missing_series_status_witness:
  "validateStockSymbol (toUpperCase ''AAPL'')
   \<and> cache_get (cache st0) (now (env_of (Obj noteLimit))) (toUpperCase ''AAPL'') = None
   \<and> axios_get (env_of (Obj noteLimit)) (toUpperCase ''AAPL'') = Replied (Obj noteLimit)
   \<and> \<not> truthy (member (Obj noteLimit) ''Time Series (Daily)'')
   \<and> member (Obj noteLimit) ''Note'' = Str ''API rate limit reached, please retry later.''
   \<and> fst (getStock (env_of (Obj noteLimit)) st0 ''AAPL'')
       = \<lparr>code = 429,
          body = [(''status'', Plain (Str ''error'')),
                  (''error'', Plain (Str ''Alpha Vantage API limit reached (5 requests/minute). Please wait 1 minute.'')),
                  (''timestamp'', Plain (Str ''2024-01-05T00:00:00.000Z''))]\<rparr>
   \<and> fst (getStock_backup (env_of (Obj noteLimit)) st0 ''AAPL'')
       = \<lparr>code = 429,
          body = [(''status'', Plain (Str ''error'')),
                  (''error'', Plain (Str ''API rate limit reached, please retry later.'')),
                  (''timestamp'', Plain (Str ''2024-01-05T00:00:00.000Z''))]\<rparr>"
proof -
  have u: "toUpperCase ''AAPL'' = ''AAPL''"
    by (simp add: toUpperCase_def upper_char_def)
  have h1: "validateStockSymbol (toUpperCase ''AAPL'')"
    by (simp add: u valid_AAPL)
  have h2: "cache_get (cache st0) (now (env_of (Obj noteLimit))) (toUpperCase ''AAPL'') = None"
    by (simp add: cache_get_def st0_def)
  have h3: "axios_get (env_of (Obj noteLimit)) (toUpperCase ''AAPL'') = Replied (Obj noteLimit)"
    by (simp add: env_of_def)
  have h4: "\<not> truthy (member (Obj noteLimit) ''Time Series (Daily)'')"
    by (simp add: noteLimit_def)
  have n: "member (Obj noteLimit) ''Note'' = Str ''API rate limit reached, please retry later.''"
    by (simp add: noteLimit_def)
  have h5: "member (Obj noteLimit) ''Note'' = Undefined
            \<or> member (Obj noteLimit) ''Note'' = Str ''API rate limit reached, please retry later.''"
    using n by simp
  have i: "includes_str ''API rate limit reached, please retry later.'' ''API rate limit''"
    by simp
  have st: "stamp (env_of (Obj noteLimit)) = ''2024-01-05T00:00:00.000Z''"
    by (simp add: env_of_def)
  from missing_series_status [OF h1 h2 h3 h4 h5] n i h1 h2 h3 h4 st show ?thesis
    by (simp add: or_js_def)
qed

text \<open>
  C1 as stated fails. The provider's usual throttling note does not contain the text
  \<^verbatim>\<open>API rate limit\<close>, and \<^verbatim>\<open>server.js\<close> answers 404 to it, not 429. A body with neither a
  time series nor a note but with an information field gets 400 from \<^verbatim>\<open>server.js\<close> and
  429 from \<^verbatim>\<open>server_backup.js\<close>, not 404.
\<close>

theorem note_without_phrase_not_found:
  "member noteOnly ''Time Series (Daily)'' = Undefined
   \<and> truthy (member noteOnly ''Note'')
   \<and> code (fst (getStock (env_of noteOnly) st0 ''AAPL'')) = 404
   \<and> member infoOnly ''Time Series (Daily)'' = Undefined
   \<and> member infoOnly ''Note'' = Undefined
   \<and> code (fst (getStock (env_of infoOnly) st0 ''AAPL'')) = 400
   \<and> code (fst (getStock_backup (env_of infoOnly) st0 ''AAPL'')) = 429"
  by (simp add: handler_defs runtime_defs input_defs)

section \<open>Entries without a usable price\<close>

text \<open>
  C3, evaluated where it fails. The only entry of the time series has no close and no
  adjusted close, so its price is NaN. In \<^verbatim>\<open>server.js\<close> the point passes the
  \<^verbatim>\<open>typeof\<close> check and is stored in the cache; the request then ends with the 500 of a
  failed \<^verbatim>\<open>JSON.parse\<close>, which names no index and no date; a second request 20 seconds
  later is served the stored series, NaN point included, with \<^verbatim>\<open>cached: true\<close>.
  \<^verbatim>\<open>server_backup.js\<close> sends the NaN point with status 200 at once.
\<close>

theorem nan_point_cached_and_served:
  "getStock (env_of payloadMissing) st0 ''AAPL'' = (constructionFailed SyntaxError, st_nan)
   \<and> getStock (later (env_of payloadMissing) 20000) st_nan ''AAPL''
       = (apiSuccess (later (env_of payloadMissing) 20000)
            (seriesData ''AAPL'' [\<lparr>date = ''2024-01-02'', close = NaN\<rparr>] True),
          st_nan)
   \<and> fst (getStock_backup (env_of payloadMissing) st0 ''AAPL'')
       = apiSuccess (env_of payloadMissing)
           (wrapped (env_of payloadMissing)
              (seriesData ''AAPL'' [\<lparr>date = ''2024-01-02'', close = NaN\<rparr>] False))"
  by (simp add: handler_defs runtime_defs input_defs)

theorem nan_point_cached_and_served_witness:
  "code (fst (getStock (env_of payloadMissing) st0 ''AAPL'')) = 500
   \<and> cache_get (cache (snd (getStock (env_of payloadMissing) st0 ''AAPL''))) 20000 ''AAPL''
       = Some [\<lparr>date = ''2024-01-02'', close = NaN\<rparr>]
   \<and> member (seriesData ''AAPL'' [\<lparr>date = ''2024-01-02'', close = NaN\<rparr>] True) ''closingPrices''
       = Arr [Obj [(''date'', Str ''2024-01-02''), (''close'', Num NaN)]]"
proof -
  from nan_point_cached_and_served
  have "getStock (env_of payloadMissing) st0 ''AAPL'' = (constructionFailed SyntaxError, st_nan)"
    by (rule conjunct1)
  then show ?thesis
    by (simp add: constructionFailed_def st_nan_def cache_get_def seriesData_def point_obj_def)
qed

section \<open>The envelope of error responses\<close>

text \<open>
  C9, evaluated where it fails. Every response written by \<^verbatim>\<open>res.apiError\<close> has the fields
  \<^verbatim>\<open>status\<close>, \<^verbatim>\<open>error\<close> and \<^verbatim>\<open>timestamp\<close>. The 500 that \<^verbatim>\<open>server.js\<close> sends when the
  response cannot be built has \<^verbatim>\<open>status\<close>, \<^verbatim>\<open>error\<close> and \<^verbatim>\<open>details\<close> and no timestamp; the
  error-handling middleware sends \<^verbatim>\<open>error\<close> and \<^verbatim>\<open>message\<close> only.
\<close>

theorem construction_failure_has_no_timestamp:
  "code (fst (getStock (env_of payloadMissing) st0 ''AAPL'')) = 500
   \<and> map fst (body (fst (getStock (env_of payloadMissing) st0 ''AAPL'')))
       = [''status'', ''error'', ''details'']
   \<and> map fst (body (apiError e err c)) = [''status'', ''error'', ''timestamp'']
   \<and> map fst (body (errorMiddleware x)) = [''error'', ''message'']"
  by (simp add: handler_defs runtime_defs input_defs errorMiddleware_def)

theorem construction_failure_has_no_timestamp_witness:
  "code (fst (getStock (env_of payloadMissing) st0 ''AAPL'')) = 500
   \<and> ''timestamp'' \<notin> set (map fst (body (fst (getStock (env_of payloadMissing) st0 ''AAPL''))))
   \<and> ''timestamp'' \<in> set (map fst (body (apiError (env_of payloadMissing)
                                              (Str ''No data found for symbol'') 404)))"
  using construction_failure_has_no_timestamp
    [of "env_of payloadMissing" "Str ''No data found for symbol''" 404 SyntaxError]
  by simp

section \<open>The order of the series\<close>



section \<open>The cache round trip\<close>

text \<open>
  C7. When a request for a valid symbol misses the cache and the provider body has a time
  series that the transform turns into \<open>series\<close>, the handler stores it, and any lookup
  less than 3600 seconds after the store returns exactly \<open>series\<close>: a second request in
  that window is answered with it and \<^verbatim>\<open>cached: true\<close>, and leaves the state as it is.
\<close>

theorem stored_series_read_back:
  assumes "validateStockSymbol (toUpperCase raw)"
      and "cache_get (cache st) (now e) (toUpperCase raw) = None"
      and "axios_get e (toUpperCase raw) = Replied d"
      and "truthy (member d ''Time Series (Daily)'')"
      and "closingPrices (member d ''Time Series (Daily)'') = Inr series"
      and "now e' < now e + took e + 13000 + 3600 * 1000"
  shows "cache_get (cache (snd (getStock e st raw))) (now e') (toUpperCase raw) = Some series
         \<and> getStock e' (snd (getStock e st raw)) raw
             = (apiSuccess e' (seriesData (toUpperCase raw) series True), snd (getStock e st raw))
         \<and> cache_get (cache (snd (getStock_backup e st raw))) (now e') (toUpperCase raw)
             = Some series
         \<and> getStock_backup e' (snd (getStock_backup e st raw)) raw
             = (apiSuccess e' (wrapped e' (seriesData (toUpperCase raw) series True)),
                snd (getStock_backup e st raw))"
proof -
  have hit: "cache_get (cache_set (cache st) (now e + took e + 13000) (toUpperCase raw) series)
               (now e') (toUpperCase raw) = Some series"
    using assms(6) by (rule cache_roundtrip)
  have a: "cache_get (cache (snd (getStock e st raw))) (now e') (toUpperCase raw) = Some series"
    using hit by (simp add: getStock_fetch [OF assms(1-5)])
  have b: "cache_get (cache (snd (getStock_backup e st raw))) (now e') (toUpperCase raw)
             = Some series"
    using hit by (simp add: getStock_backup_fetch [OF assms(1-5)])
  show ?thesis
    using a b getStock_hit(1) [OF assms(1) a] getStock_hit(2) [OF assms(1) b] by simp
qed

theorem stored_series_read_back_witness:
  "validateStockSymbol (toUpperCase ''AAPL'')
   \<and> cache_get (cache st0) (now (env_of payload3)) (toUpperCase ''AAPL'') = None
   \<and> axios_get (env_of payload3) (toUpperCase ''AAPL'') = Replied payload3
   \<and> truthy (member payload3 ''Time Series (Daily)'')
   \<and> closingPrices (member payload3 ''Time Series (Daily)'') = Inr series3
   \<and> now (later (env_of Null) 3613249) < now (env_of payload3) + took (env_of payload3) + 13000 + 3600 * 1000
   \<and> cache_get (cache (snd (getStock (env_of payload3) st0 ''AAPL'')))
        (now (later (env_of Null) 3613249)) (toUpperCase ''AAPL'') = Some series3
   \<and> getStock (later (env_of Null) 3613249) (snd (getStock (env_of payload3) st0 ''AAPL'')) ''AAPL''
       = (apiSuccess (later (env_of Null) 3613249) (seriesData (toUpperCase ''AAPL'') series3 True),
          snd (getStock (env_of payload3) st0 ''AAPL''))"
proof -
  have u: "toUpperCase ''AAPL'' = ''AAPL''"
    by (simp add: toUpperCase_def upper_char_def)
  have h1: "validateStockSymbol (toUpperCase ''AAPL'')"
    by (simp add: u valid_AAPL)
  have h2: "cache_get (cache st0) (now (env_of payload3)) (toUpperCase ''AAPL'') = None"
    by (simp add: cache_get_def st0_def)
  have h3: "axios_get (env_of payload3) (toUpperCase ''AAPL'') = Replied payload3"
    by (simp add: env_of_def)
  have h4: "truthy (member payload3 ''Time Series (Daily)'')"
    by (simp add: payload3_def)
  have h5: "closingPrices (member payload3 ''Time Series (Daily)'') = Inr series3"
    by (simp add: handler_defs runtime_defs input_defs)
  have h6: "now (later (env_of Null) 3613249)
              < now (env_of payload3) + took (env_of payload3) + 13000 + 3600 * 1000"
    by (simp add: later_def env_of_def)
  from stored_series_read_back [OF h1 h2 h3 h4 h5 h6] h1 h2 h3 h4 h5 h6 show ?thesis
    by blast
qed

section \<open>Failed fetches and the cache\<close>

text \<open>
  C10. Whenever a handler answers 429, 404 or 400, or ends in its outer \<^verbatim>\<open>catch\<close> (a
  rejected provider request or an exception before the cache is written), the cache is what
  it was before the request. And whenever a run changes the cache, the provider replied
  with a body that has a time series, the transform returned a series without throwing,
  and the change is the storing of that series under the requested symbol.
\<close>

theorem failed_fetch_leaves_cache:
  "(code (fst (getStock e st raw)) \<in> {400, 404, 429}
      \<or> fst (getStock e st raw) = failedToProcess e
    \<longrightarrow> cache (snd (getStock e st raw)) = cache st)
   \<and> (code (fst (getStock_backup e st raw)) \<in> {400, 404, 429}
        \<or> fst (getStock_backup e st raw) = failedToProcess e
      \<longrightarrow> cache (snd (getStock_backup e st raw)) = cache st)
   \<and> (cache (snd (getStock e st raw)) \<noteq> cache st
      \<longrightarrow> (\<exists>d cp. axios_get e (toUpperCase raw) = Replied d
                 \<and> truthy (member d ''Time Series (Daily)'')
                 \<and> closingPrices (member d ''Time Series (Daily)'') = Inr cp
                 \<and> cache (snd (getStock e st raw))
                     = cache_set (cache st) (now e + took e + 13000) (toUpperCase raw) cp))
   \<and> (cache (snd (getStock_backup e st raw)) \<noteq> cache st
      \<longrightarrow> (\<exists>d cp. axios_get e (toUpperCase raw) = Replied d
                 \<and> truthy (member d ''Time Series (Daily)'')
                 \<and> closingPrices (member d ''Time Series (Daily)'') = Inr cp
                 \<and> cache (snd (getStock_backup e st raw))
                     = cache_set (cache st) (now e + took e + 13000) (toUpperCase raw) cp))"
proof (intro conjI impI)
  assume "code (fst (getStock e st raw)) \<in> {400, 404, 429}
          \<or> fst (getStock e st raw) = failedToProcess e"
  then show "cache (snd (getStock e st raw)) = cache st"
    by (rule getStock_failure_keeps_cache)
next
  assume "code (fst (getStock_backup e st raw)) \<in> {400, 404, 429}
          \<or> fst (getStock_backup e st raw) = failedToProcess e"
  then show "cache (snd (getStock_backup e st raw)) = cache st"
    by (rule getStock_backup_failure_keeps_cache)
next
  assume "cache (snd (getStock e st raw)) \<noteq> cache st"
  then show "\<exists>d cp. axios_get e (toUpperCase raw) = Replied d
                 \<and> truthy (member d ''Time Series (Daily)'')
                 \<and> closingPrices (member d ''Time Series (Daily)'') = Inr cp
                 \<and> cache (snd (getStock e st raw))
                     = cache_set (cache st) (now e + took e + 13000) (toUpperCase raw) cp"
    using getStock_cache_cases [of e st raw] by auto
next
  assume "cache (snd (getStock_backup e st raw)) \<noteq> cache st"
  then show "\<exists>d cp. axios_get e (toUpperCase raw) = Replied d
                 \<and> truthy (member d ''Time Series (Daily)'')
                 \<and> closingPrices (member d ''Time Series (Daily)'') = Inr cp
                 \<and> cache (snd (getStock_backup e st raw))
                     = cache_set (cache st) (now e + took e + 13000) (toUpperCase raw) cp"
    using getStock_backup_cache_cases [of e st raw] by auto
qed

theorem failed_fetch_leaves_cache_witness:
  "code (fst (getStock (later (env_of noteOnly) 4000000) st_cached ''AAPL'')) \<in> {400, 404, 429}
   \<and> cache (snd (getStock (later (env_of noteOnly) 4000000) st_cached ''AAPL'')) = cache st_cached
   \<and> calls (snd (getStock (later (env_of noteOnly) 4000000) st_cached ''AAPL'')) = [(''AAPL'', 4000000)]
   \<and> cache (snd (getStock (env_of payload3) st0 ''AAPL'')) \<noteq> cache st0
   \<and> (\<exists>d cp. axios_get (env_of payload3) (toUpperCase ''AAPL'') = Replied d
          \<and> truthy (member d ''Time Series (Daily)'')
          \<and> closingPrices (member d ''Time Series (Daily)'') = Inr cp
          \<and> cache (snd (getStock (env_of payload3) st0 ''AAPL''))
              = cache_set (cache st0) (now (env_of payload3) + took (env_of payload3) + 13000)
                  (toUpperCase ''AAPL'') cp)"
proof -
  have h1: "code (fst (getStock (later (env_of noteOnly) 4000000) st_cached ''AAPL''))
              \<in> {400, 404, 429}"
    by (simp add: handler_defs runtime_defs input_defs)
  have c: "calls (snd (getStock (later (env_of noteOnly) 4000000) st_cached ''AAPL'')) = [(''AAPL'', 4000000)]"
    by (simp add: handler_defs runtime_defs input_defs)
  have "cache (snd (getStock (env_of payload3) st0 ''AAPL'')) ''AAPL'' \<noteq> cache st0 ''AAPL''"
    by (simp add: handler_defs runtime_defs input_defs)
  then have h2: "cache (snd (getStock (env_of payload3) st0 ''AAPL'')) \<noteq> cache st0"
    by (rule contrapos_nn) simp
  from failed_fetch_leaves_cache [of "later (env_of noteOnly) 4000000" st_cached "''AAPL''"]
    failed_fetch_leaves_cache [of "env_of payload3" st0 "''AAPL''"] h1 h2 c
  show ?thesis by blast
qed

section \<open>The spacing of provider requests\<close>

text \<open>
  C2, evaluated where it fails. A request for AAPL enters at time 0 and misses the cache;
  while it waits for the provider, a second request enters at 1 ms, for MSFT or for AAPL
  again, and misses too. Both handlers call \<^verbatim>\<open>axios.get\<close> for the second request at once:
  the provider requests go out at 0 and at 1 ms. The wait of 13000 ms comes after a
  request's own provider call and holds no other request back.
\<close>

theorem overlapping_requests_not_spaced:
  "fst (getStock_start (env_of payload3) st0 ''AAPL'') = Inr ''AAPL''
   \<and> fst (getStock_start (later (env_of payload3) 1)
             (snd (getStock_start (env_of payload3) st0 ''AAPL'')) ''MSFT'') = Inr ''MSFT''
   \<and> calls (snd (getStock_start (later (env_of payload3) 1)
                    (snd (getStock_start (env_of payload3) st0 ''AAPL'')) ''MSFT''))
       = [(''AAPL'', 0), (''MSFT'', 1)]
   \<and> calls (snd (getStock_start (later (env_of payload3) 1)
                    (snd (getStock_start (env_of payload3) st0 ''AAPL'')) ''AAPL''))
       = [(''AAPL'', 0), (''AAPL'', 1)]
   \<and> calls (snd (getStock_backup_start (later (env_of payload3) 1)
                    (snd (getStock_backup_start (env_of payload3) st0 ''AAPL'')) ''MSFT''))
       = [(''AAPL'', 0), (''MSFT'', 1)]"
  by (simp add: handler_defs runtime_defs input_defs)

theorem overlapping_requests_not_spaced_witness:
  "map snd (calls (snd (getStock_start (later (env_of payload3) 1)
                          (snd (getStock_start (env_of payload3) st0 ''AAPL'')) ''MSFT'')))
     = [0, 1]
   \<and> map snd (calls (snd (getStock_backup_start (later (env_of payload3) 1)
                            (snd (getStock_backup_start (env_of payload3) st0 ''AAPL'')) ''MSFT'')))
       = [0, 1]"
  using overlapping_requests_not_spaced by simp

end
